theory Spec2Isabelle
  imports Complex_Main "HOL-Library.Multiset"
begin

section \<open>The mock payment provider (mock-provider/server.js)\<close>

text \<open>
  The server is one JavaScript module: a configuration object read from the process
  environment, three module-level variables (the token bucket, the circuit breaker and
  the metrics), a timer that refills the bucket, and the HTTP handlers. The handlers of
  \<open>GET /health\<close>, \<open>/metrics\<close> and \<open>/config\<close> only read the state and are left out, as
  are the fields of the responses that echo the request or are generated at random.

  JavaScript numbers are modelled by \<open>int\<close> for what \<open>parseInt\<close> and \<open>Date.now()\<close>
  return, by \<open>nat\<close> for the counters that only count up from 0, and by \<open>real\<close> for the
  token level, the rates and the running average. Arithmetic on these is carried out
  in double precision: the result of every operation is rounded by \<open>fl\<close>. Integers
  are taken as exact, which they are in double precision up to \<open>2 ^ 53\<close>.
\<close>

subsection \<open>Double precision arithmetic\<close>

text \<open>
  A JavaScript number is an IEEE 754 binary64 value, and an arithmetic operation
  returns the exact result rounded to the nearest such value, ties going to the even
  significand. \<open>fl\<close> is this rounding on the reals: the binary exponent of the argument
  (not below -1022, where the subnormal numbers begin) fixes the spacing of the
  neighbouring doubles, and the argument is rounded to a multiple of that spacing.
  Overflow to \<open>Infinity\<close> (magnitudes of \<open>2 ^ 1024\<close> and more) is not modelled.
\<close>

text \<open>The number of binary digits of \<open>n\<close>.\<close>

fun bit_length :: "nat \<Rightarrow> nat" where
  "bit_length n = (if n = 0 then 0 else Suc (bit_length (n div 2)))"

declare bit_length.simps [simp del]

text \<open>The binary exponent of \<open>x > 0\<close>: the \<open>e\<close> with \<open>2 ^ e \<le> x < 2 ^ (e + 1)\<close>.\<close>

definition expo :: "real \<Rightarrow> int" where
  "expo x =
     (if 1 \<le> x then int (bit_length (nat \<lfloor>x\<rfloor>)) - 1
      else - int (bit_length (nat (\<lceil>1 / x\<rceil> - 1))))"

definition pow2 :: "int \<Rightarrow> real" where
  "pow2 k = (if 0 \<le> k then 2 ^ nat k else 1 / 2 ^ nat (- k))"

definition round_half_even :: "real \<Rightarrow> int" where
  "round_half_even y =
     (let f = \<lfloor>y\<rfloor>
      in if y - of_int f < 1 / 2 then f
         else if 1 / 2 < y - of_int f then f + 1
         else if even f then f else f + 1)"

definition fl :: "real \<Rightarrow> real" where
  "fl x =
     (if x = 0 then 0
      else let e = max (expo \<bar>x\<bar>) (- 1022);
               ulp = pow2 (e - 52)
           in of_int (round_half_even (x / ulp)) * ulp)"

text \<open>A real number that is a double: rounding leaves it as it is.\<close>

definition is_double :: "real \<Rightarrow> bool" where
  "is_double x = (fl x = x)"

subsection \<open>Configuration\<close>

text \<open>
  \<open>parseInt\<close> and \<open>parseFloat\<close> are built-ins of the language. The environment is
  given by what they return for each variable: \<open>None\<close> stands for \<open>NaN\<close> (the variable
  is unset or does not start with a numeral), \<open>Some x\<close> for the number \<open>x\<close>.
  \<open>CIRCUIT_BREAKER\<close> is compared as a string, so it is kept as one.
\<close>

record environment =
  TPS :: "int option"
  BURST_SIZE :: "int option"
  MIN_LATENCY :: "int option"
  MAX_LATENCY :: "int option"
  TRANSIENT_FAILURE_RATE :: "real option"
  PERMANENT_FAILURE_RATE :: "real option"
  TIMEOUT_RATE :: "real option"
  TIMEOUT_DURATION :: "int option"
  CIRCUIT_BREAKER :: "string option"
  CIRCUIT_BREAKER_THRESHOLD :: "int option"
  CIRCUIT_BREAKER_TIMEOUT :: "int option"

record config =
  tps :: int
  burstSize :: int
  minLatency :: int
  maxLatency :: int
  transientFailureRate :: real
  permanentFailureRate :: real
  timeoutRate :: real
  timeoutDuration :: int
  circuitBreakerEnabled :: bool
  circuitBreakerThreshold :: int
  circuitBreakerTimeout :: int

text \<open>\<open>x || d\<close> on a number \<open>x\<close>: \<open>NaN\<close> and \<open>0\<close> are falsy and give \<open>d\<close>.\<close>

definition or_default :: "'a::zero option \<Rightarrow> 'a \<Rightarrow> 'a" where
  "or_default v d = (case v of None \<Rightarrow> d | Some x \<Rightarrow> if x = 0 then d else x)"

definition load_config :: "environment \<Rightarrow> config" where
  "load_config env =
     \<lparr> tps = or_default (TPS env) 2,
       burstSize = or_default (BURST_SIZE env) 5,
       minLatency = or_default (MIN_LATENCY env) 200,
       maxLatency = or_default (MAX_LATENCY env) 800,
       transientFailureRate = or_default (TRANSIENT_FAILURE_RATE env) 0.2,
       permanentFailureRate = or_default (PERMANENT_FAILURE_RATE env) 0.05,
       timeoutRate = or_default (TIMEOUT_RATE env) 0.1,
       timeoutDuration = or_default (TIMEOUT_DURATION env) 10000,
       circuitBreakerEnabled = (CIRCUIT_BREAKER env = Some ''true''),
       circuitBreakerThreshold = or_default (CIRCUIT_BREAKER_THRESHOLD env) 5,
       circuitBreakerTimeout = or_default (CIRCUIT_BREAKER_TIMEOUT env) 30000 \<rparr>"

text \<open>The environment in which no variable is set.\<close>

definition no_env :: environment where
  "no_env =
     \<lparr> TPS = None, BURST_SIZE = None, MIN_LATENCY = None, MAX_LATENCY = None,
       TRANSIENT_FAILURE_RATE = None, PERMANENT_FAILURE_RATE = None, TIMEOUT_RATE = None,
       TIMEOUT_DURATION = None, CIRCUIT_BREAKER = None,
       CIRCUIT_BREAKER_THRESHOLD = None, CIRCUIT_BREAKER_TIMEOUT = None \<rparr>"

subsection \<open>Module state\<close>

datatype phase = CLOSED | OPEN | HALF_OPEN

record circuit_breaker =
  failures :: nat
  lastFailure :: int
  state :: phase

record metrics_t =
  totalRequests :: nat
  successfulRequests :: nat
  failedRequests :: nat
  rateLimitedRequests :: nat
  timeoutRequests :: nat
  circuitBreakerTrips :: nat
  averageLatency :: real
  startTime :: int

record server =
  tokens :: real
  lastRefill :: int
  circuitBreaker :: circuit_breaker
  metrics :: metrics_t

text \<open>The state when the module has been loaded at time \<open>now\<close> (milliseconds).\<close>

definition boot :: "config \<Rightarrow> int \<Rightarrow> server" where
  "boot cfg now =
     \<lparr> tokens = of_int (burstSize cfg),
       lastRefill = now,
       circuitBreaker = \<lparr> failures = 0, lastFailure = 0, state = CLOSED \<rparr>,
       metrics = \<lparr> totalRequests = 0, successfulRequests = 0, failedRequests = 0,
                   rateLimitedRequests = 0, timeoutRequests = 0, circuitBreakerTrips = 0,
                   averageLatency = 0, startTime = now \<rparr> \<rparr>"

subsection \<open>Token refill (the \<open>setInterval\<close> callback)\<close>

definition refill :: "config \<Rightarrow> int \<Rightarrow> server \<Rightarrow> server" where
  "refill cfg now s =
     (let timePassed = fl (of_int (now - lastRefill s) / 1000);
          tokensToAdd = fl (timePassed * of_int (tps cfg))
      in s\<lparr> tokens := min (fl (tokens s + tokensToAdd)) (of_int (burstSize cfg)),
            lastRefill := now \<rparr>)"

subsection \<open>Circuit breaker\<close>

definition checkCircuitBreaker :: "config \<Rightarrow> int \<Rightarrow> server \<Rightarrow> bool \<times> server" where
  "checkCircuitBreaker cfg now s =
     (if state (circuitBreaker s) = OPEN then
        (if now - lastFailure (circuitBreaker s) > circuitBreakerTimeout cfg
         then (True, s\<lparr> circuitBreaker := (circuitBreaker s)\<lparr> state := HALF_OPEN \<rparr> \<rparr>)
         else (False, s))
      else (True, s))"

definition updateCircuitBreaker :: "config \<Rightarrow> int \<Rightarrow> bool \<Rightarrow> server \<Rightarrow> server" where
  "updateCircuitBreaker cfg now success s =
     (if \<not> circuitBreakerEnabled cfg then s
      else if success then
        (if state (circuitBreaker s) = HALF_OPEN
         then s\<lparr> circuitBreaker := (circuitBreaker s)\<lparr> state := CLOSED, failures := 0 \<rparr> \<rparr>
         else s)
      else
        (let b = (circuitBreaker s)\<lparr> failures := failures (circuitBreaker s) + 1,
                                     lastFailure := now \<rparr>
         in if int (failures b) \<ge> circuitBreakerThreshold cfg
            then s\<lparr> circuitBreaker := b\<lparr> state := OPEN \<rparr>,
                    metrics := (metrics s)\<lparr> circuitBreakerTrips :=
                                 circuitBreakerTrips (metrics s) + 1 \<rparr> \<rparr>
            else s\<lparr> circuitBreaker := b \<rparr>))"

subsection \<open>The payment handler\<close>

text \<open>
  The handler of \<open>POST /pay\<close> runs without interruption up to its single \<open>await\<close>
  (the simulated delay) and again from there to its response. \<open>pay_begin\<close> is the
  first part and \<open>pay_finish\<close> the second; other handlers and the refill timer may run
  in between.

  The values of the successive calls of \<open>Math.random()\<close> are inputs: the first call
  draws the latency, the next ones are compared with the timeout rate, the permanent
  failure rate and the transient failure rate, each call made only when the tests
  before it have failed.

  \<open>tokens--\<close> is written without rounding: the difference is exact in double precision
  for every double from 1 up to \<open>2 ^ 53\<close>.
\<close>

record draws =
  latency_draw :: real
  timeout_draw :: real
  permanent_draw :: real
  transient_draw :: real

datatype outcome = TIMEOUT | PERMANENT_FAILURE | TRANSIENT_FAILURE | SUCCESS

datatype response =
    Ok_200 int
  | RateLimited_429 int
  | Timeout_408
  | InternalError_500
  | BreakerOpen_503 phase
  | Transient_503

text \<open>A request suspended at its \<open>await\<close>: the branch it is in and its \<open>startTime\<close>.\<close>

record pending =
  p_outcome :: outcome
  p_startTime :: int

text \<open>How the first part ends: with a response, or waiting for a delay (milliseconds).\<close>

datatype progress = Responded response | Awaiting real pending

definition select_outcome :: "config \<Rightarrow> draws \<Rightarrow> outcome" where
  "select_outcome cfg d =
     (if timeout_draw d < timeoutRate cfg then TIMEOUT
      else if permanent_draw d < permanentFailureRate cfg then PERMANENT_FAILURE
      else if transient_draw d < transientFailureRate cfg then TRANSIENT_FAILURE
      else SUCCESS)"

definition pay_begin :: "config \<Rightarrow> int \<Rightarrow> draws \<Rightarrow> server \<Rightarrow> progress \<times> server" where
  "pay_begin cfg now d s0 =
     (let s1 = s0\<lparr> metrics := (metrics s0)\<lparr> totalRequests := totalRequests (metrics s0) + 1 \<rparr> \<rparr>;
          (admitted, s2) = checkCircuitBreaker cfg now s1
      in if \<not> admitted then
           (Responded (BreakerOpen_503 (state (circuitBreaker s2))),
            s2\<lparr> metrics := (metrics s2)\<lparr> failedRequests := failedRequests (metrics s2) + 1 \<rparr> \<rparr>)
         else if tokens s2 < 1 then
           (Responded (RateLimited_429 \<lceil>fl (fl (1 / of_int (tps cfg)) * 1000)\<rceil>),
            s2\<lparr> metrics := (metrics s2)\<lparr> rateLimitedRequests :=
                               rateLimitedRequests (metrics s2) + 1 \<rparr> \<rparr>)
         else
           (let s3 = s2\<lparr> tokens := tokens s2 - 1 \<rparr>;
                latency = fl (of_int (minLatency cfg)
                              + fl (latency_draw d * of_int (maxLatency cfg - minLatency cfg)));
                oc = select_outcome cfg d
            in (Awaiting (if oc = TIMEOUT then of_int (timeoutDuration cfg) else latency)
                  \<lparr> p_outcome = oc, p_startTime = now \<rparr>,
                s3)))"

definition pay_finish :: "config \<Rightarrow> int \<Rightarrow> pending \<Rightarrow> server \<Rightarrow> response \<times> server" where
  "pay_finish cfg now p s =
     (case p_outcome p of
        TIMEOUT \<Rightarrow>
          (Timeout_408,
           updateCircuitBreaker cfg now False
             (s\<lparr> metrics := (metrics s)\<lparr> timeoutRequests := timeoutRequests (metrics s) + 1 \<rparr> \<rparr>))
      | PERMANENT_FAILURE \<Rightarrow>
          (InternalError_500,
           updateCircuitBreaker cfg now False
             (s\<lparr> metrics := (metrics s)\<lparr> failedRequests := failedRequests (metrics s) + 1 \<rparr> \<rparr>))
      | TRANSIENT_FAILURE \<Rightarrow>
          (Transient_503,
           updateCircuitBreaker cfg now False
             (s\<lparr> metrics := (metrics s)\<lparr> failedRequests := failedRequests (metrics s) + 1 \<rparr> \<rparr>))
      | SUCCESS \<Rightarrow>
          (let responseTime = now - p_startTime p;
               m = metrics s;
               avg = fl (fl (fl (averageLatency m * of_nat (successfulRequests m))
                             + of_int responseTime)
                         / of_nat (successfulRequests m + 1))
           in (Ok_200 responseTime,
               updateCircuitBreaker cfg now True
                 (s\<lparr> metrics := m\<lparr> averageLatency := avg,
                                    successfulRequests := successfulRequests m + 1 \<rparr> \<rparr>))))"

subsection \<open>The reset handler\<close>

definition reset :: "config \<Rightarrow> int \<Rightarrow> server \<Rightarrow> server" where
  "reset cfg now s =
     s\<lparr> metrics := \<lparr> totalRequests = 0, successfulRequests = 0, failedRequests = 0,
                     rateLimitedRequests = 0, timeoutRequests = 0, circuitBreakerTrips = 0,
                     averageLatency = 0, startTime = now \<rparr>,
        circuitBreaker := \<lparr> failures = 0, lastFailure = 0, state = CLOSED \<rparr>,
        tokens := of_int (burstSize cfg) \<rparr>"

subsection \<open>The event loop\<close>

text \<open>
  The process runs one callback at a time. Its whole state is the clock, the module
  state and the requests suspended at their \<open>await\<close>. An event is the passing of some
  milliseconds, the refill timer firing, a request arriving (with the random numbers it
  will draw), a suspended request resuming (by its position among the suspended ones),
  or a reset. Timers are not tied to their delays here: a suspended request may resume
  at any later time, which includes every schedule the real timers produce.
\<close>

record world =
  clock :: int
  srv :: server
  inflight :: "pending list"

datatype event = Advance nat | Tick | Pay draws | Resume nat | Reset

definition start :: "config \<Rightarrow> int \<Rightarrow> world" where
  "start cfg now = \<lparr> clock = now, srv = boot cfg now, inflight = [] \<rparr>"

fun step :: "config \<Rightarrow> world \<Rightarrow> event \<Rightarrow> world" where
  "step cfg w (Advance ms) = w\<lparr> clock := clock w + int ms \<rparr>"
| "step cfg w Tick = w\<lparr> srv := refill cfg (clock w) (srv w) \<rparr>"
| "step cfg w (Pay d) =
     (case pay_begin cfg (clock w) d (srv w) of
        (Responded r, s) \<Rightarrow> w\<lparr> srv := s \<rparr>
      | (Awaiting delay p, s) \<Rightarrow> w\<lparr> srv := s, inflight := inflight w @ [p] \<rparr>)"
| "step cfg w (Resume i) =
     (if i < length (inflight w)
      then w\<lparr> srv := snd (pay_finish cfg (clock w) (inflight w ! i) (srv w)),
              inflight := take i (inflight w) @ drop (Suc i) (inflight w) \<rparr>
      else w)"
| "step cfg w Reset = w\<lparr> srv := reset cfg (clock w) (srv w) \<rparr>"

definition run :: "config \<Rightarrow> int \<Rightarrow> event list \<Rightarrow> world" where
  "run cfg t0 evs = foldl (step cfg) (start cfg t0) evs"

subsection \<open>Derived notions\<close>

text \<open>The branch a request is suspended in, if the first part of the handler suspended it.\<close>

fun outcome_of :: "progress \<Rightarrow> outcome option" where
  "outcome_of (Responded r) = None"
| "outcome_of (Awaiting delay p) = Some (p_outcome p)"

text \<open>
  A request is admitted when the breaker check lets it pass and the bucket holds a whole
  token: these are the two early returns of the handler.
\<close>

definition admitted :: "config \<Rightarrow> int \<Rightarrow> server \<Rightarrow> bool" where
  "admitted cfg now s = (fst (checkCircuitBreaker cfg now s) \<and> 1 \<le> tokens s)"

text \<open>
  The selection rule as the specification words it: one draw \<open>r\<close> against cumulative
  bands. It is compared with \<open>select_outcome\<close>, which is the handler's rule.
\<close>

definition spec_banded_outcome :: "real \<Rightarrow> real \<Rightarrow> real \<Rightarrow> real \<Rightarrow> outcome" where
  "spec_banded_outcome t p f r =
     (if r < t then TIMEOUT
      else if r < t + p then PERMANENT_FAILURE
      else if r < t + p + f then TRANSIENT_FAILURE
      else SUCCESS)"

text \<open>Draws in which every outcome test sees the same number \<open>r\<close>.\<close>

definition single_draw :: "real \<Rightarrow> draws" where
  "single_draw r =
     \<lparr> latency_draw = 0.5, timeout_draw = r, permanent_draw = r, transient_draw = r \<rparr>"

definition d_timeout :: draws where
  "d_timeout = single_draw 0.05"

definition d_success :: draws where
  "d_success = single_draw 0.5"

definition d_permanent :: draws where
  "d_permanent =
     \<lparr> latency_draw = 0.5, timeout_draw = 0.5, permanent_draw = 0.01, transient_draw = 0.5 \<rparr>"

text \<open>
  The breaker keeps the failure count at or above the threshold while it is not closed,
  and it leaves \<open>CLOSED\<close> only when it is enabled.
\<close>

definition breaker_inv :: "config \<Rightarrow> server \<Rightarrow> bool" where
  "breaker_inv cfg s =
     (state (circuitBreaker s) = CLOSED
      \<or> (circuitBreakerEnabled cfg
          \<and> circuitBreakerThreshold cfg \<le> int (failures (circuitBreaker s))))"

text \<open>
  The token bucket is within its bounds, and the last refill is not in the future.
\<close>

definition bucket_inv :: "config \<Rightarrow> world \<Rightarrow> bool" where
  "bucket_inv cfg w =
     (0 \<le> tokens (srv w) \<and> tokens (srv w) \<le> of_int (burstSize cfg)
      \<and> lastRefill (srv w) \<le> clock w)"




text \<open>Configurations used as concrete inputs.\<close>

definition defaults :: config where
  "defaults = load_config no_env"

definition breaker_on :: config where
  "breaker_on = load_config (no_env\<lparr> CIRCUIT_BREAKER := Some ''true'' \<rparr>)"

definition threshold_one :: config where
  "threshold_one = load_config (no_env\<lparr> CIRCUIT_BREAKER := Some ''true'',
                                         CIRCUIT_BREAKER_THRESHOLD := Some 1 \<rparr>)"

definition negative_tps :: config where
  "negative_tps = load_config (no_env\<lparr> TPS := Some (- 1) \<rparr>)"

text \<open>Event sequences used as concrete inputs.\<close>

text \<open>
  One request that times out trips the breaker of \<open>threshold_one\<close> at 10000 ms; at
  40001 ms the open window of 30000 ms has passed. Each \<open>Tick\<close> stands for the firings
  of the refill timer since the one before.
\<close>

definition to_half_open :: "event list" where
  "to_half_open = [Pay d_timeout, Advance 10000, Tick, Resume 0, Advance 30001, Tick]"

text \<open>
  Six requests that all time out: five arrive at 0 ms and empty the bucket, the refill
  timer adds one token by 500 ms, the sixth arrives then. At 10000 ms the first four
  respond (\<open>four_responses\<close>), then the fifth (\<open>six_timeouts\<close>), while the sixth is
  still waiting.
\<close>

definition four_responses :: "event list" where
  "four_responses =
     [Pay d_timeout, Pay d_timeout, Pay d_timeout, Pay d_timeout, Pay d_timeout,
      Advance 500, Tick, Pay d_timeout, Advance 9500, Tick,
      Resume 0, Resume 0, Resume 0, Resume 0]"

definition six_timeouts :: "event list" where
  "six_timeouts = four_responses @ [Resume 0]"

text \<open>
  Six requests that all fail permanently, arriving as in \<open>six_timeouts\<close>; all six have
  responded at the end.
\<close>

definition six_failures :: "event list" where
  "six_failures =
     [Pay d_permanent, Pay d_permanent, Pay d_permanent, Pay d_permanent, Pay d_permanent,
      Advance 500, Tick, Pay d_permanent,
      Resume 0, Resume 0, Resume 0, Resume 0, Resume 0, Advance 500, Resume 0]"

text \<open>
  Five requests empty the bucket at 0 ms; the refill timer then fires ten times, every
  100 ms.
\<close>

definition ten_refills :: "event list" where
  "ten_refills =
     [Pay d_success, Pay d_success, Pay d_success, Pay d_success, Pay d_success,
      Advance 100, Tick, Advance 100, Tick, Advance 100, Tick, Advance 100, Tick,
      Advance 100, Tick, Advance 100, Tick, Advance 100, Tick, Advance 100, Tick,
      Advance 100, Tick, Advance 100, Tick]"



text \<open>The rates of the chaos example of the README: 0.6, 0.2 and 0.3.\<close>

definition chaos_env :: environment where
  "chaos_env =
     no_env\<lparr> TRANSIENT_FAILURE_RATE := Some 0.6, PERMANENT_FAILURE_RATE := Some 0.2,
             TIMEOUT_RATE := Some 0.3 \<rparr>"


section \<open>Properties\<close>

subsection \<open>Evaluation of the concrete configurations\<close>

lemma defaults_eq:
  "defaults =
     \<lparr> tps = 2, burstSize = 5, minLatency = 200, maxLatency = 800,
       transientFailureRate = 0.2, permanentFailureRate = 0.05, timeoutRate = 0.1,
       timeoutDuration = 10000, circuitBreakerEnabled = False,
       circuitBreakerThreshold = 5, circuitBreakerTimeout = 30000 \<rparr>"
  by (simp add: defaults_def load_config_def no_env_def or_default_def)

lemma breaker_on_eq:
  "breaker_on =
     \<lparr> tps = 2, burstSize = 5, minLatency = 200, maxLatency = 800,
       transientFailureRate = 0.2, permanentFailureRate = 0.05, timeoutRate = 0.1,
       timeoutDuration = 10000, circuitBreakerEnabled = True,
       circuitBreakerThreshold = 5, circuitBreakerTimeout = 30000 \<rparr>"
  by (simp add: breaker_on_def load_config_def no_env_def or_default_def)

lemma threshold_one_eq:
  "threshold_one =
     \<lparr> tps = 2, burstSize = 5, minLatency = 200, maxLatency = 800,
       transientFailureRate = 0.2, permanentFailureRate = 0.05, timeoutRate = 0.1,
       timeoutDuration = 10000, circuitBreakerEnabled = True,
       circuitBreakerThreshold = 1, circuitBreakerTimeout = 30000 \<rparr>"
  by (simp add: threshold_one_def load_config_def no_env_def or_default_def)

text \<open>The rounding and the refill written out, for evaluation at concrete numbers.\<close>

lemma round_half_even_unfold:
  "round_half_even y =
     (if y - of_int \<lfloor>y\<rfloor> < 1 / 2 then \<lfloor>y\<rfloor>
      else if 1 / 2 < y - of_int \<lfloor>y\<rfloor> then \<lfloor>y\<rfloor> + 1
      else if even \<lfloor>y\<rfloor> then \<lfloor>y\<rfloor> else \<lfloor>y\<rfloor> + 1)"
  by (simp add: round_half_even_def Let_def)

lemma fl_unfold:
  "fl x =
     (if x = 0 then 0
      else of_int (round_half_even (x / pow2 (max (expo \<bar>x\<bar>) (- 1022) - 52)))
           * pow2 (max (expo \<bar>x\<bar>) (- 1022) - 52))"
  by (simp add: fl_def Let_def)

lemma refill_unfold:
  "refill cfg now s =
     s\<lparr> tokens := min (fl (tokens s
                            + fl (fl (of_int (now - lastRefill s) / 1000) * of_int (tps cfg))))
                       (of_int (burstSize cfg)),
        lastRefill := now \<rparr>"
  by (simp add: refill_def Let_def)

lemmas fl_eval = fl_unfold round_half_even_unfold expo_def pow2_def bit_length.simps

lemmas handler_defs =
  pay_begin_def pay_finish_def select_outcome_def checkCircuitBreaker_def
  updateCircuitBreaker_def refill_unfold reset_def

lemmas run_defs = run_def start_def boot_def handler_defs fl_eval

lemmas draw_defs = single_draw_def d_timeout_def d_success_def d_permanent_def

subsection \<open>Rounding\<close>

lemma round_half_even_nonneg: "0 \<le> y \<Longrightarrow> 0 \<le> round_half_even y"
  by (simp add: round_half_even_def Let_def)

lemma pow2_pos: "0 < pow2 k"
  by (simp add: pow2_def)

lemma fl_nonneg:
  assumes "0 \<le> x"
  shows "0 \<le> fl x"
proof (cases "x = 0")
  case True
  then show ?thesis by (simp add: fl_def)
next
  case False
  define u where "u = pow2 (max (expo \<bar>x\<bar>) (- 1022) - 52)"
  have "0 < u" by (simp add: u_def pow2_pos)
  with assms have "0 \<le> x / u" by simp
  then have "0 \<le> round_half_even (x / u)" by (rule round_half_even_nonneg)
  with \<open>0 < u\<close> have "0 \<le> of_int (round_half_even (x / u)) * u" by simp
  with False show ?thesis by (simp add: fl_def Let_def u_def)
qed

lemma is_double_zero [simp]: "is_double 0"
  by (simp add: is_double_def fl_def)

lemma bit_length_bounds:
  "0 < n \<Longrightarrow> 2 ^ (bit_length n - 1) \<le> n \<and> n < 2 ^ bit_length n"
proof (induction n rule: bit_length.induct)
  case (1 n)
  show ?case
  proof (cases "n div 2 = 0")
    case True
    with "1.prems" have "n = 1" by (simp add: div_eq_0_iff)
    have "bit_length (Suc 0) = Suc 0"
      by (simp add: bit_length.simps [of "Suc 0"] bit_length.simps [of 0])
    with \<open>n = 1\<close> show ?thesis
      by simp
  next
    case False
    then have pos: "0 < n div 2" by simp
    from "1.IH" [OF _ pos] "1.prems"
    have lo: "2 ^ (bit_length (n div 2) - 1) \<le> n div 2"
      and hi: "n div 2 < 2 ^ bit_length (n div 2)" by simp_all
    have bl: "bit_length n = Suc (bit_length (n div 2))"
      using "1.prems" by (subst bit_length.simps) simp
    have blpos: "0 < bit_length (n div 2)"
      using pos by (subst bit_length.simps) simp
    have "2 ^ (bit_length n - 1) = 2 * 2 ^ (bit_length (n div 2) - 1)"
      using blpos bl by (cases "bit_length (n div 2)") simp_all
    also have "\<dots> \<le> 2 * (n div 2)" using lo by simp
    also have "\<dots> \<le> n" by simp
    finally have l: "2 ^ (bit_length n - 1) \<le> n" .
    from hi have "n div 2 + 1 \<le> 2 ^ bit_length (n div 2)" by simp
    then have "2 * (n div 2) + 2 \<le> 2 * 2 ^ bit_length (n div 2)" by simp
    moreover have "n < 2 * (n div 2) + 2" by arith
    ultimately have "n < 2 ^ bit_length n" using bl by simp
    with l show ?thesis by simp
  qed
qed

lemma round_half_even_of_int [simp]: "round_half_even (of_int z) = z"
  by (simp add: round_half_even_def)

lemma pow2_nonpos: "k \<le> 0 \<Longrightarrow> pow2 k = 1 / 2 ^ nat (- k)"
  by (cases "k = 0") (simp_all add: pow2_def)

text \<open>Integers of magnitude below \<open>2 ^ 53\<close> are doubles.\<close>

lemma is_double_of_int:
  assumes "\<bar>n\<bar> < 2 ^ 53"
  shows "is_double (of_int n)"
proof (cases "n = 0")
  case True
  then show ?thesis by (simp add: is_double_def fl_def)
next
  case False
  define m where "m = nat \<bar>n\<bar>"
  have mpos: "0 < m" and mlt: "m < 2 ^ 53"
    using False assms by (simp_all add: m_def nat_less_iff)
  have one: "(1::real) \<le> \<bar>of_int n\<bar>"
    using False by (metis abs_ge_zero less_le_not_le linorder_le_cases of_int_1 of_int_abs of_int_le_iff zero_less_abs_iff int_one_le_iff_zero_less)
  have fl_abs: "nat \<lfloor>\<bar>real_of_int n\<bar>\<rfloor> = m"
    by (simp add: m_def flip: of_int_abs)
  from bit_length_bounds [OF mpos] have "2 ^ (bit_length m - 1) \<le> m" by simp
  from this mlt have "(2::nat) ^ (bit_length m - 1) < 2 ^ 53" by (rule le_less_trans)
  with power_less_imp_less_exp [of "2::nat" "bit_length m - 1" 53]
  have "bit_length m - 1 < 53" by simp
  then have le: "int (bit_length m) - 1 \<le> 52" by simp
  have ge: "0 \<le> int (bit_length m) - 1"
    using bit_length_bounds [OF mpos] mpos by (cases "bit_length m") simp_all
  define e where "e = int (bit_length m) - 1"
  have ex: "max (expo \<bar>of_int n\<bar>) (- 1022) = e"
    using one ge by (simp add: expo_def fl_abs e_def)
  define k where "k = nat (52 - e)"
  have u: "pow2 (e - 52) = 1 / 2 ^ k"
    using le by (simp add: pow2_nonpos e_def k_def)
  have "of_int n / pow2 (e - 52) = (of_int (n * 2 ^ k) :: real)"
    by (simp add: u)
  then have "round_half_even (of_int n / pow2 (e - 52)) = n * 2 ^ k"
    by (simp only: round_half_even_of_int)
  then have "fl (of_int n) = of_int (n * 2 ^ k) * (1 / 2 ^ k)"
    using False by (simp add: fl_def Let_def ex u)
  then show ?thesis
    by (simp add: is_double_def)
qed

text \<open>
  Some values of the rounding: the double next to 0.1, its negative, the double next to
  a third, and two ties above \<open>2 ^ 53\<close>, which go to the even significand.
\<close>

lemma fl_examples:
  "fl 0.1 = 3602879701896397 / 2 ^ 55"
  "fl (- 0.1) = - (3602879701896397 / 2 ^ 55)"
  "fl (1 / 3) = 6004799503160661 / 2 ^ 54"
  "fl (2 ^ 53 + 1) = 2 ^ 53"
  "fl (2 ^ 53 + 3) = 2 ^ 53 + 4"
  by (simp_all add: fl_eval)

text \<open>
  Rounding shows in the bucket: ten refills of 0.2 tokens leave it just below 2, so of
  two requests that follow the second is turned away.
\<close>

lemma ten_refills_round:
  "tokens (srv (run defaults 0 ten_refills)) = 2 - 1 / 2 ^ 52
   \<and> rateLimitedRequests (metrics (srv (run defaults 0
        (ten_refills @ [Pay d_success, Pay d_success])))) = 1"
  by (simp add: run_defs defaults_eq draw_defs ten_refills_def Let_def)

subsection \<open>What each handler leaves unchanged\<close>

lemma gate_metrics_update [simp]:
  "fst (checkCircuitBreaker cfg now (s\<lparr> metrics := m \<rparr>)) = fst (checkCircuitBreaker cfg now s)"
  by (simp add: checkCircuitBreaker_def)

lemma gate_tokens [simp]:
  "tokens (snd (checkCircuitBreaker cfg now s)) = tokens s"
  by (simp add: checkCircuitBreaker_def)

lemma gate_closed:
  "state (circuitBreaker s) = CLOSED \<Longrightarrow> checkCircuitBreaker cfg now s = (True, s)"
  by (simp add: checkCircuitBreaker_def)

lemma update_disabled:
  "\<not> circuitBreakerEnabled cfg \<Longrightarrow> updateCircuitBreaker cfg now ok s = s"
  by (simp add: updateCircuitBreaker_def)

lemma update_success_metrics [simp]:
  "metrics (updateCircuitBreaker cfg now True s) = metrics s"
  by (simp add: updateCircuitBreaker_def)

lemma update_tokens [simp]:
  "tokens (updateCircuitBreaker cfg now ok s) = tokens s"
  "lastRefill (updateCircuitBreaker cfg now ok s) = lastRefill s"
  by (simp_all add: updateCircuitBreaker_def Let_def)

lemma gate_lastRefill [simp]:
  "lastRefill (snd (checkCircuitBreaker cfg now s)) = lastRefill s"
  by (simp add: checkCircuitBreaker_def)

lemma pay_finish_tokens [simp]:
  "tokens (snd (pay_finish cfg now p s)) = tokens s"
  "lastRefill (snd (pay_finish cfg now p s)) = lastRefill s"
  by (cases "p_outcome p"; simp add: pay_finish_def Let_def)+

text \<open>The server after a \<open>Pay\<close> event is the one \<open>pay_begin\<close> returns.\<close>

lemma srv_step_Pay: "srv (step cfg w (Pay d)) = snd (pay_begin cfg (clock w) d (srv w))"
proof (cases "pay_begin cfg (clock w) d (srv w)")
  case (Pair r s)
  then show ?thesis by (cases r) simp_all
qed

lemma clock_step_Pay: "clock (step cfg w (Pay d)) = clock w"
proof (cases "pay_begin cfg (clock w) d (srv w)")
  case (Pair r s)
  then show ?thesis by (cases r) simp_all
qed

subsection \<open>Outcome selection\<close>

lemma pay_begin_admitted:
  assumes "admitted cfg now s"
  shows "outcome_of (fst (pay_begin cfg now d s)) = Some (select_outcome cfg d)"
  using assms
  by (simp add: admitted_def pay_begin_def Let_def split_beta)

text \<open>
  C1 (corrected). The outcome of an admitted request is selected by successive,
  separate draws, tested in the fixed order timeout, permanent, transient, each against
  its own rate: TIMEOUT iff the first draw is below \<open>timeoutRate\<close>; PERMANENT_FAILURE
  iff that test fails and the second draw is below \<open>permanentFailureRate\<close>;
  TRANSIENT_FAILURE iff both fail and the third draw is below \<open>transientFailureRate\<close>;
  SUCCESS iff all three tests fail. The bands are not cumulative.
\<close>

theorem C1_outcome_by_successive_draws:
  assumes "admitted cfg now s"
  shows "(outcome_of (fst (pay_begin cfg now d s)) = Some TIMEOUT)
           = (timeout_draw d < timeoutRate cfg)
       \<and> (outcome_of (fst (pay_begin cfg now d s)) = Some PERMANENT_FAILURE)
           = (timeoutRate cfg \<le> timeout_draw d
              \<and> permanent_draw d < permanentFailureRate cfg)
       \<and> (outcome_of (fst (pay_begin cfg now d s)) = Some TRANSIENT_FAILURE)
           = (timeoutRate cfg \<le> timeout_draw d
              \<and> permanentFailureRate cfg \<le> permanent_draw d
              \<and> transient_draw d < transientFailureRate cfg)
       \<and> (outcome_of (fst (pay_begin cfg now d s)) = Some SUCCESS)
           = (timeoutRate cfg \<le> timeout_draw d
              \<and> permanentFailureRate cfg \<le> permanent_draw d
              \<and> transientFailureRate cfg \<le> transient_draw d)"
  unfolding pay_begin_admitted [OF assms]
  by (simp add: select_outcome_def not_less)

text \<open>
  With the default rates 0.1, 0.05 and 0.2 and every test seeing the same number:
  0.05 gives TIMEOUT, 0.12 gives TRANSIENT_FAILURE, 0.30 and 0.99 give SUCCESS.
\<close>

theorem C1_outcome_by_successive_draws_witness:
  "admitted defaults 0 (boot defaults 0)
   \<and> outcome_of (fst (pay_begin defaults 0 (single_draw 0.05) (boot defaults 0)))
       = Some TIMEOUT
   \<and> outcome_of (fst (pay_begin defaults 0 (single_draw 0.12) (boot defaults 0)))
       = Some TRANSIENT_FAILURE
   \<and> outcome_of (fst (pay_begin defaults 0 (single_draw 0.30) (boot defaults 0)))
       = Some SUCCESS
   \<and> outcome_of (fst (pay_begin defaults 0 (single_draw 0.99) (boot defaults 0)))
       = Some SUCCESS"
proof -
  have a: "admitted defaults 0 (boot defaults 0)"
    by (simp add: admitted_def checkCircuitBreaker_def boot_def defaults_eq)
  note t = C1_outcome_by_successive_draws [OF a]
  show ?thesis
    using a t [of "single_draw 0.05"] t [of "single_draw 0.12"]
      t [of "single_draw 0.30"] t [of "single_draw 0.99"]
    by (simp add: single_draw_def defaults_eq)
qed

text \<open>
  The draw 0.12 lies in the cumulative band of the permanent failure, and the handler
  answers it with the transient failure; the draw 0.30 lies in the cumulative band of
  the transient failure, and the handler answers it with success.
\<close>

theorem C1_single_draw_counterexample:
  "timeoutRate defaults = 0.1 \<and> permanentFailureRate defaults = 0.05
   \<and> transientFailureRate defaults = 0.2
   \<and> admitted defaults 0 (boot defaults 0)
   \<and> spec_banded_outcome 0.1 0.05 0.2 0.12 = PERMANENT_FAILURE
   \<and> outcome_of (fst (pay_begin defaults 0 (single_draw 0.12) (boot defaults 0)))
       = Some TRANSIENT_FAILURE
   \<and> spec_banded_outcome 0.1 0.05 0.2 0.30 = TRANSIENT_FAILURE
   \<and> outcome_of (fst (pay_begin defaults 0 (single_draw 0.30) (boot defaults 0)))
       = Some SUCCESS"
  by (simp add: spec_banded_outcome_def single_draw_def defaults_eq boot_def admitted_def
      handler_defs)

subsection \<open>The timeout branch\<close>

text \<open>
  C2 (corrected). A request whose selected outcome is TIMEOUT is answered with the
  timeout error 408, reports a failure to the circuit breaker, and is counted in the
  timeout counter only: \<open>timeoutRequests\<close> grows by exactly 1 and \<open>failedRequests\<close>
  stays as it is.
\<close>

theorem C2_timeout_counted_once:
  assumes "p_outcome p = TIMEOUT"
  shows "fst (pay_finish cfg now p s) = Timeout_408
       \<and> snd (pay_finish cfg now p s)
           = updateCircuitBreaker cfg now False
               (s\<lparr> metrics := (metrics s)\<lparr> timeoutRequests :=
                                  timeoutRequests (metrics s) + 1 \<rparr> \<rparr>)
       \<and> timeoutRequests (metrics (snd (pay_finish cfg now p s)))
           = timeoutRequests (metrics s) + 1
       \<and> failedRequests (metrics (snd (pay_finish cfg now p s)))
           = failedRequests (metrics s)
       \<and> failures (circuitBreaker (snd (pay_finish cfg now p s)))
           = failures (circuitBreaker s) + (if circuitBreakerEnabled cfg then 1 else 0)"
  using assms by (simp add: pay_finish_def updateCircuitBreaker_def Let_def)

theorem C2_timeout_counted_once_witness:
  "p_outcome \<lparr> p_outcome = TIMEOUT, p_startTime = 0 \<rparr> = TIMEOUT
   \<and> fst (pay_finish breaker_on 10000 \<lparr> p_outcome = TIMEOUT, p_startTime = 0 \<rparr>
            (boot breaker_on 0)) = Timeout_408
   \<and> timeoutRequests (metrics (snd (pay_finish breaker_on 10000
        \<lparr> p_outcome = TIMEOUT, p_startTime = 0 \<rparr> (boot breaker_on 0)))) = 1
   \<and> failedRequests (metrics (snd (pay_finish breaker_on 10000
        \<lparr> p_outcome = TIMEOUT, p_startTime = 0 \<rparr> (boot breaker_on 0)))) = 0
   \<and> failures (circuitBreaker (snd (pay_finish breaker_on 10000
        \<lparr> p_outcome = TIMEOUT, p_startTime = 0 \<rparr> (boot breaker_on 0)))) = 1"
proof -
  have h: "p_outcome \<lparr> p_outcome = TIMEOUT, p_startTime = 0 \<rparr> = TIMEOUT"
    by simp
  show ?thesis
    using C2_timeout_counted_once [OF h, of breaker_on 10000 "boot breaker_on 0"]
    by (simp add: boot_def breaker_on_eq updateCircuitBreaker_def Let_def)
qed

text \<open>
  One request that times out, from arrival to response: the failed counter is 0 before
  and after, the timeout counter goes from 0 to 1.
\<close>

theorem C2_timeout_failed_counter_counterexample:
  "inflight (run breaker_on 0 [Pay d_timeout]) = [\<lparr> p_outcome = TIMEOUT, p_startTime = 0 \<rparr>]
   \<and> failedRequests (metrics (srv (run breaker_on 0 [Pay d_timeout]))) = 0
   \<and> timeoutRequests (metrics (srv (run breaker_on 0 [Pay d_timeout]))) = 0
   \<and> failedRequests (metrics (srv (run breaker_on 0
        [Pay d_timeout, Advance 10000, Resume 0]))) = 0
   \<and> timeoutRequests (metrics (srv (run breaker_on 0
        [Pay d_timeout, Advance 10000, Resume 0]))) = 1"
  by (simp add: run_defs breaker_on_eq draw_defs Let_def)

subsection \<open>The circuit breaker over every run\<close>

lemma breaker_inv_boot: "breaker_inv cfg (boot cfg now)"
  by (simp add: breaker_inv_def boot_def)

lemma breaker_inv_refill: "breaker_inv cfg s \<Longrightarrow> breaker_inv cfg (refill cfg now s)"
  by (simp add: breaker_inv_def refill_def Let_def)

lemma breaker_inv_reset: "breaker_inv cfg (reset cfg now s)"
  by (simp add: breaker_inv_def reset_def)

lemma breaker_inv_gate:
  "breaker_inv cfg s \<Longrightarrow> breaker_inv cfg (snd (checkCircuitBreaker cfg now s))"
  by (auto simp add: breaker_inv_def checkCircuitBreaker_def)

lemma breaker_inv_update:
  "breaker_inv cfg s \<Longrightarrow> breaker_inv cfg (updateCircuitBreaker cfg now ok s)"
  by (auto simp add: breaker_inv_def updateCircuitBreaker_def Let_def)

lemma breaker_inv_metrics [simp]: "breaker_inv cfg (s\<lparr> metrics := m \<rparr>) = breaker_inv cfg s"
  by (simp add: breaker_inv_def)

lemma breaker_inv_tokens [simp]: "breaker_inv cfg (s\<lparr> tokens := x \<rparr>) = breaker_inv cfg s"
  by (simp add: breaker_inv_def)

lemma breaker_inv_pay_begin:
  assumes "breaker_inv cfg s"
  shows "breaker_inv cfg (snd (pay_begin cfg now d s))"
proof -
  let ?s1 = "s\<lparr> metrics := (metrics s)\<lparr> totalRequests := totalRequests (metrics s) + 1 \<rparr> \<rparr>"
  have "breaker_inv cfg (snd (checkCircuitBreaker cfg now ?s1))"
    using assms by (intro breaker_inv_gate) simp
  then show ?thesis
    by (simp add: pay_begin_def Let_def split_beta)
qed

lemma breaker_inv_pay_finish:
  assumes "breaker_inv cfg s"
  shows "breaker_inv cfg (snd (pay_finish cfg now p s))"
  using assms
  by (cases "p_outcome p") (simp_all add: pay_finish_def Let_def breaker_inv_update)

lemma breaker_inv_step:
  assumes "breaker_inv cfg (srv w)"
  shows "breaker_inv cfg (srv (step cfg w ev))"
proof (cases ev)
  case (Advance ms)
  with assms show ?thesis by simp
next
  case Tick
  with assms show ?thesis by (simp add: breaker_inv_refill)
next
  case (Pay d)
  with assms show ?thesis by (simp only: srv_step_Pay breaker_inv_pay_begin)
next
  case (Resume i)
  with assms show ?thesis by (simp add: breaker_inv_pay_finish)
next
  case Reset
  then show ?thesis by (simp add: breaker_inv_reset)
qed

lemma breaker_inv_foldl:
  "breaker_inv cfg (srv w) \<Longrightarrow> breaker_inv cfg (srv (foldl (step cfg) w evs))"
  by (induction evs arbitrary: w) (simp_all add: breaker_inv_step)

lemma breaker_inv_run: "breaker_inv cfg (srv (run cfg t0 evs))"
  unfolding run_def by (rule breaker_inv_foldl) (simp add: start_def breaker_inv_boot)

text \<open>
  C3 (corrected). While the circuit breaker is HALF_OPEN, the gate admits every request,
  not only one: each gate check returns true and leaves the phase HALF_OPEN, so a
  request that arrives is never rejected by the breaker. The phase leaves HALF_OPEN
  when an outcome is reported: to CLOSED with failure count 0 on a success, to OPEN on
  a failure.
\<close>

theorem C3_half_open_admits_every_request:
  assumes "state (circuitBreaker (srv (run cfg t0 evs))) = HALF_OPEN"
  shows "checkCircuitBreaker cfg now (srv (run cfg t0 evs)) = (True, srv (run cfg t0 evs))
       \<and> state (circuitBreaker (snd (pay_begin cfg now d (srv (run cfg t0 evs))))) = HALF_OPEN
       \<and> (\<forall>ph. fst (pay_begin cfg now d (srv (run cfg t0 evs))) \<noteq> Responded (BreakerOpen_503 ph))
       \<and> state (circuitBreaker (updateCircuitBreaker cfg now True (srv (run cfg t0 evs)))) = CLOSED
       \<and> failures (circuitBreaker (updateCircuitBreaker cfg now True (srv (run cfg t0 evs)))) = 0
       \<and> state (circuitBreaker (updateCircuitBreaker cfg now False (srv (run cfg t0 evs)))) = OPEN"
proof -
  let ?s = "srv (run cfg t0 evs)"
  have inv: "circuitBreakerEnabled cfg"
    "circuitBreakerThreshold cfg \<le> int (failures (circuitBreaker ?s))"
    using breaker_inv_run [of cfg t0 evs] assms by (simp_all add: breaker_inv_def)
  have gate: "checkCircuitBreaker cfg now' (s'\<lparr> metrics := m \<rparr>) = (True, s'\<lparr> metrics := m \<rparr>)"
    if "state (circuitBreaker s') = HALF_OPEN" for now' s' m
    using that by (simp add: checkCircuitBreaker_def)
  have g0: "checkCircuitBreaker cfg now ?s = (True, ?s)"
    using assms by (simp add: checkCircuitBreaker_def)
  have pb: "state (circuitBreaker (snd (pay_begin cfg now d ?s))) = HALF_OPEN"
    "\<And>ph. fst (pay_begin cfg now d ?s) \<noteq> Responded (BreakerOpen_503 ph)"
    using assms by (simp_all add: pay_begin_def gate Let_def)
  have up: "state (circuitBreaker (updateCircuitBreaker cfg now True ?s)) = CLOSED"
    "failures (circuitBreaker (updateCircuitBreaker cfg now True ?s)) = 0"
    "state (circuitBreaker (updateCircuitBreaker cfg now False ?s)) = OPEN"
    using assms inv by (simp_all add: updateCircuitBreaker_def Let_def)
  from g0 pb up show ?thesis by simp
qed

lemma half_open_reached:
  "srv (run threshold_one 0 (to_half_open @ [Pay d_success])) =
     \<lparr> tokens = 4, lastRefill = 40001,
       circuitBreaker = \<lparr> failures = 1, lastFailure = 10000, state = HALF_OPEN \<rparr>,
       metrics = \<lparr> totalRequests = 2, successfulRequests = 0, failedRequests = 0,
                   rateLimitedRequests = 0, timeoutRequests = 1, circuitBreakerTrips = 1,
                   averageLatency = 0, startTime = 0 \<rparr> \<rparr>"
  by (simp add: run_defs threshold_one_eq draw_defs to_half_open_def Let_def)

theorem C3_half_open_admits_every_request_witness:
  "state (circuitBreaker (srv (run threshold_one 0 (to_half_open @ [Pay d_success])))) = HALF_OPEN
   \<and> fst (checkCircuitBreaker threshold_one 40002
            (srv (run threshold_one 0 (to_half_open @ [Pay d_success]))))
   \<and> state (circuitBreaker (snd (pay_begin threshold_one 40002 d_success
            (srv (run threshold_one 0 (to_half_open @ [Pay d_success])))))) = HALF_OPEN
   \<and> state (circuitBreaker (updateCircuitBreaker threshold_one 40002 True
            (srv (run threshold_one 0 (to_half_open @ [Pay d_success]))))) = CLOSED
   \<and> state (circuitBreaker (updateCircuitBreaker threshold_one 40002 False
            (srv (run threshold_one 0 (to_half_open @ [Pay d_success]))))) = OPEN"
proof -
  have h: "state (circuitBreaker (srv (run threshold_one 0 (to_half_open @ [Pay d_success]))))
             = HALF_OPEN"
    by (simp add: half_open_reached)
  show ?thesis
    using h C3_half_open_admits_every_request [OF h, of 40002 d_success]
    by simp
qed


text \<open>
  The breaker opens, the window passes, a first request takes the breaker to HALF_OPEN
  and is admitted; before it responds a second request passes the gate and is admitted
  as well.
\<close>

theorem C3_second_trial_counterexample:
  "state (circuitBreaker (srv (run threshold_one 0 to_half_open))) = OPEN
   \<and> state (circuitBreaker (srv (run threshold_one 0 (to_half_open @ [Pay d_success]))))
       = HALF_OPEN
   \<and> inflight (run threshold_one 0 (to_half_open @ [Pay d_success]))
       = [\<lparr> p_outcome = SUCCESS, p_startTime = 40001 \<rparr>]
   \<and> fst (checkCircuitBreaker threshold_one 40001
            (srv (run threshold_one 0 (to_half_open @ [Pay d_success]))))
   \<and> state (circuitBreaker (srv (run threshold_one 0
            (to_half_open @ [Pay d_success, Pay d_success])))) = HALF_OPEN
   \<and> inflight (run threshold_one 0 (to_half_open @ [Pay d_success, Pay d_success]))
       = [\<lparr> p_outcome = SUCCESS, p_startTime = 40001 \<rparr>,
          \<lparr> p_outcome = SUCCESS, p_startTime = 40001 \<rparr>]"
  by (simp add: run_defs threshold_one_eq draw_defs to_half_open_def Let_def)

text \<open>
  What a report does to the trip counter: it adds 1 whenever a failure is reported to
  an enabled breaker and the failure count reaches or exceeds the threshold, whatever
  the phase was.
\<close>

lemma trips_after_report:
  "circuitBreakerTrips (metrics (updateCircuitBreaker cfg now ok s))
     = circuitBreakerTrips (metrics s)
       + (if circuitBreakerEnabled cfg \<and> \<not> ok
             \<and> circuitBreakerThreshold cfg \<le> int (failures (circuitBreaker s)) + 1
          then 1 else 0)"
  by (simp add: updateCircuitBreaker_def Let_def)

text \<open>
  C4 (defect of the code). The trip counter should grow by one per transition into
  OPEN. In this run the breaker is CLOSED with no trip after four responses; the fifth
  response opens it and sets the counter to 1; the response of the sixth request,
  which was admitted before the breaker opened, is reported while the phase is already
  OPEN, leaves it OPEN and raises the counter to 2.
\<close>

theorem C4_trip_counted_again_while_open:
  "state (circuitBreaker (srv (run breaker_on 0 four_responses))) = CLOSED
   \<and> circuitBreakerTrips (metrics (srv (run breaker_on 0 four_responses))) = 0
   \<and> state (circuitBreaker (srv (run breaker_on 0 six_timeouts))) = OPEN
   \<and> circuitBreakerTrips (metrics (srv (run breaker_on 0 six_timeouts))) = 1
   \<and> inflight (run breaker_on 0 six_timeouts) = [\<lparr> p_outcome = TIMEOUT, p_startTime = 500 \<rparr>]
   \<and> state (circuitBreaker (srv (run breaker_on 0
        (six_timeouts @ [Advance 500, Tick, Resume 0])))) = OPEN
   \<and> circuitBreakerTrips (metrics (srv (run breaker_on 0
        (six_timeouts @ [Advance 500, Tick, Resume 0])))) = 2"
  by (simp add: run_defs breaker_on_eq draw_defs six_timeouts_def four_responses_def Let_def)

subsection \<open>The breaker when it is disabled\<close>

lemma closed_when_disabled:
  assumes "\<not> circuitBreakerEnabled cfg"
  shows "state (circuitBreaker (srv (run cfg t0 evs))) = CLOSED"
  using breaker_inv_run [of cfg t0 evs] assms by (simp add: breaker_inv_def)

text \<open>
  C5 (confirmed). When \<open>circuitBreakerEnabled\<close> is false, the phase is CLOSED in every
  state the server reaches, the gate returns true at every call there and no request is
  rejected by the breaker; reporting an outcome changes nothing, so the breaker is left
  as it is by every response. The metrics count failures all the same: a permanent or
  transient failure adds 1 to \<open>failedRequests\<close>, a timeout adds 1 to
  \<open>timeoutRequests\<close>.
\<close>

theorem C5_disabled_breaker_stays_closed:
  assumes "\<not> circuitBreakerEnabled cfg"
  shows "state (circuitBreaker (srv (run cfg t0 evs))) = CLOSED
       \<and> checkCircuitBreaker cfg now (srv (run cfg t0 evs)) = (True, srv (run cfg t0 evs))
       \<and> (\<forall>ph. fst (pay_begin cfg now d (srv (run cfg t0 evs))) \<noteq> Responded (BreakerOpen_503 ph))
       \<and> updateCircuitBreaker cfg now ok s = s
       \<and> circuitBreaker (snd (pay_finish cfg now p s)) = circuitBreaker s
       \<and> failedRequests (metrics (snd (pay_finish cfg now
            \<lparr> p_outcome = PERMANENT_FAILURE, p_startTime = t \<rparr> s)))
           = failedRequests (metrics s) + 1
       \<and> failedRequests (metrics (snd (pay_finish cfg now
            \<lparr> p_outcome = TRANSIENT_FAILURE, p_startTime = t \<rparr> s)))
           = failedRequests (metrics s) + 1
       \<and> timeoutRequests (metrics (snd (pay_finish cfg now
            \<lparr> p_outcome = TIMEOUT, p_startTime = t \<rparr> s)))
           = timeoutRequests (metrics s) + 1"
proof -
  let ?s = "srv (run cfg t0 evs)"
  have c: "state (circuitBreaker ?s) = CLOSED"
    by (rule closed_when_disabled [OF assms])
  have g: "checkCircuitBreaker cfg now ?s = (True, ?s)"
    by (rule gate_closed [OF c])
  have pb: "\<And>ph. fst (pay_begin cfg now d ?s) \<noteq> Responded (BreakerOpen_503 ph)"
    using c by (simp add: pay_begin_def checkCircuitBreaker_def Let_def)
  have u: "updateCircuitBreaker cfg now ok s = s"
    by (rule update_disabled [OF assms])
  have pf: "circuitBreaker (snd (pay_finish cfg now p s)) = circuitBreaker s"
    by (cases "p_outcome p") (simp_all add: pay_finish_def Let_def update_disabled [OF assms])
  have m: "failedRequests (metrics (snd (pay_finish cfg now
            \<lparr> p_outcome = PERMANENT_FAILURE, p_startTime = t \<rparr> s)))
           = failedRequests (metrics s) + 1"
    "failedRequests (metrics (snd (pay_finish cfg now
            \<lparr> p_outcome = TRANSIENT_FAILURE, p_startTime = t \<rparr> s)))
           = failedRequests (metrics s) + 1"
    "timeoutRequests (metrics (snd (pay_finish cfg now
            \<lparr> p_outcome = TIMEOUT, p_startTime = t \<rparr> s)))
           = timeoutRequests (metrics s) + 1"
    by (simp_all add: pay_finish_def update_disabled [OF assms])
  from c g pb u pf m show ?thesis by simp
qed

lemma six_failures_run:
  "srv (run defaults 0 six_failures) =
     \<lparr> tokens = 0, lastRefill = 500,
       circuitBreaker = \<lparr> failures = 0, lastFailure = 0, state = CLOSED \<rparr>,
       metrics = \<lparr> totalRequests = 6, successfulRequests = 0, failedRequests = 6,
                   rateLimitedRequests = 0, timeoutRequests = 0, circuitBreakerTrips = 0,
                   averageLatency = 0, startTime = 0 \<rparr> \<rparr>"
  by (simp add: run_defs defaults_eq draw_defs six_failures_def Let_def)

theorem C5_disabled_breaker_stays_closed_witness:
  "\<not> circuitBreakerEnabled defaults
   \<and> state (circuitBreaker (srv (run defaults 0 six_failures))) = CLOSED
   \<and> failedRequests (metrics (srv (run defaults 0 six_failures))) = 6
   \<and> fst (checkCircuitBreaker defaults 1000 (srv (run defaults 0 six_failures)))
   \<and> failedRequests (metrics (snd (pay_finish defaults 1000
        \<lparr> p_outcome = PERMANENT_FAILURE, p_startTime = 0 \<rparr> (srv (run defaults 0 six_failures)))))
       = 7"
proof -
  have h: "\<not> circuitBreakerEnabled defaults"
    by (simp add: defaults_eq)
  show ?thesis
    using h C5_disabled_breaker_stays_closed [OF h, of 0 six_failures 1000 d_permanent True
        "srv (run defaults 0 six_failures)" "\<lparr> p_outcome = PERMANENT_FAILURE, p_startTime = 0 \<rparr>" 0]
    by (simp add: six_failures_run)
qed

subsection \<open>The token bucket\<close>

lemma pay_begin_tokens:
  "tokens (snd (pay_begin cfg now d s)) = (if admitted cfg now s then tokens s - 1 else tokens s)"
  by (simp add: pay_begin_def admitted_def Let_def split_beta)

lemma pay_begin_lastRefill [simp]:
  "lastRefill (snd (pay_begin cfg now d s)) = lastRefill s"
  by (simp add: pay_begin_def Let_def split_beta)

lemma refill_tokens:
  "tokens (refill cfg now s)
     = min (of_int (burstSize cfg))
           (fl (tokens s + fl (fl (of_int (now - lastRefill s) / 1000) * of_int (tps cfg))))"
  by (simp add: refill_def Let_def min.commute)

lemma refill_bounds:
  assumes "0 \<le> tps cfg" "0 \<le> burstSize cfg" "0 \<le> tokens s" "lastRefill s \<le> now"
  shows "0 \<le> tokens (refill cfg now s)" "tokens (refill cfg now s) \<le> of_int (burstSize cfg)"
proof -
  let ?elapsed = "fl (of_int (now - lastRefill s) / 1000)"
  let ?added = "fl (?elapsed * of_int (tps cfg))"
  have "(0::real) \<le> of_int (now - lastRefill s) / 1000"
    using assms(4) by simp
  then have elapsed: "0 \<le> ?elapsed"
    by (rule fl_nonneg)
  have "(0::real) \<le> of_int (tps cfg)"
    using assms(1) by simp
  with elapsed have "0 \<le> ?elapsed * of_int (tps cfg)"
    by (rule mult_nonneg_nonneg)
  then have added: "0 \<le> ?added"
    by (rule fl_nonneg)
  from assms(3) added have "0 \<le> tokens s + ?added"
    by (rule add_nonneg_nonneg)
  then have "0 \<le> fl (tokens s + ?added)"
    by (rule fl_nonneg)
  with assms(2) show "0 \<le> tokens (refill cfg now s)"
    by (simp add: refill_tokens)
  show "tokens (refill cfg now s) \<le> of_int (burstSize cfg)"
    by (simp add: refill_tokens)
qed

lemma bucket_inv_step:
  assumes "0 \<le> tps cfg" "0 \<le> burstSize cfg" "bucket_inv cfg w"
  shows "bucket_inv cfg (step cfg w ev)"
proof (cases ev)
  case (Advance ms)
  with assms show ?thesis by (simp add: bucket_inv_def)
next
  case Tick
  have "lastRefill (refill cfg (clock w) (srv w)) = clock w"
    by (simp add: refill_def Let_def)
  with Tick assms refill_bounds [of cfg "srv w" "clock w"] show ?thesis
    by (simp add: bucket_inv_def)
next
  case (Pay d)
  with assms show ?thesis
    by (simp del: step.simps
        add: bucket_inv_def srv_step_Pay clock_step_Pay pay_begin_tokens admitted_def)
next
  case (Resume i)
  with assms show ?thesis by (simp add: bucket_inv_def)
next
  case Reset
  with assms show ?thesis by (simp add: bucket_inv_def reset_def)
qed

lemma bucket_inv_foldl:
  assumes "0 \<le> tps cfg" "0 \<le> burstSize cfg"
  shows "bucket_inv cfg w \<Longrightarrow> bucket_inv cfg (foldl (step cfg) w evs)"
  by (induction evs arbitrary: w) (simp_all add: bucket_inv_step [OF assms])

lemma bucket_inv_run:
  assumes "0 \<le> tps cfg" "0 \<le> burstSize cfg"
  shows "bucket_inv cfg (run cfg t0 evs)"
  unfolding run_def
proof (rule bucket_inv_foldl [OF assms])
  show "bucket_inv cfg (start cfg t0)"
    using assms by (simp add: bucket_inv_def start_def boot_def)
qed

text \<open>
  C6 (corrected). For every configuration whose \<open>tps\<close> and \<open>burstSize\<close> are not
  negative, and a clock that does not run backwards, \<open>0 \<le> tokens \<le> burstSize\<close> holds
  in every state the server reaches. The refill sets the tokens to
  \<open>min burstSize (tokens + elapsedSeconds * tps)\<close>, each operation rounded to double
  precision; a request that passes the breaker and finds \<open>tokens \<ge> 1\<close> takes one token;
  any other request, in particular one that finds \<open>tokens < 1\<close>, leaves the tokens and
  the time of the last refill as they are; reset sets the tokens to \<open>burstSize\<close>.
\<close>

theorem C6_token_bucket_invariant:
  assumes "0 \<le> tps cfg" and "0 \<le> burstSize cfg"
  shows "0 \<le> tokens (srv (run cfg t0 evs))
       \<and> tokens (srv (run cfg t0 evs)) \<le> of_int (burstSize cfg)
       \<and> tokens (refill cfg now s)
           = min (of_int (burstSize cfg))
                 (fl (tokens s
                      + fl (fl (of_int (now - lastRefill s) / 1000) * of_int (tps cfg))))
       \<and> tokens (snd (pay_begin cfg now d s))
           = (if fst (checkCircuitBreaker cfg now s) \<and> 1 \<le> tokens s
              then tokens s - 1 else tokens s)
       \<and> lastRefill (snd (pay_begin cfg now d s)) = lastRefill s
       \<and> tokens (reset cfg now s) = of_int (burstSize cfg)"
  using bucket_inv_run [OF assms, of t0 evs]
  by (simp add: bucket_inv_def refill_tokens pay_begin_tokens admitted_def reset_def)

theorem C6_token_bucket_invariant_witness:
  "0 \<le> tps breaker_on \<and> 0 \<le> burstSize breaker_on
   \<and> 0 \<le> tokens (srv (run breaker_on 0 six_timeouts))
   \<and> tokens (srv (run breaker_on 0 six_timeouts)) \<le> of_int (burstSize breaker_on)
   \<and> tokens (refill breaker_on 100 (boot breaker_on 0)) = 5
   \<and> tokens (snd (pay_begin breaker_on 100 d_success (boot breaker_on 0))) = 4
   \<and> tokens (reset breaker_on 100 (boot breaker_on 0)) = 5"
proof -
  have h: "0 \<le> tps breaker_on" "0 \<le> burstSize breaker_on"
    by (simp_all add: breaker_on_eq)
  show ?thesis
    using h C6_token_bucket_invariant [OF h, of 0 six_timeouts 100 "boot breaker_on 0" d_success]
    by (simp add: boot_def breaker_on_eq checkCircuitBreaker_def fl_eval)
qed

text \<open>
  \<open>TPS=-1\<close> is accepted as it is. Six seconds after the start the refill takes six
  tokens from the full bucket of five and leaves -1.
\<close>

theorem C6_negative_tps_counterexample:
  "tps negative_tps = - 1 \<and> burstSize negative_tps = 5
   \<and> tokens (srv (run negative_tps 0 [])) = 5
   \<and> tokens (srv (run negative_tps 0 [Advance 6000, Tick])) = - 1"
  by (simp add: run_defs negative_tps_def load_config_def no_env_def or_default_def Let_def)

subsection \<open>Reset\<close>

text \<open>
  C7 (confirmed). The reset handler, from any state, sets all six counters and the
  average latency to 0, the breaker to CLOSED with failure count 0 and the token level
  to \<open>burstSize\<close>: the state is the initial one but for the time of the last refill,
  which it keeps. The handler has no \<open>await\<close>, so it is a single event of the loop: the
  state after the event is the fully reset one, and no other handler runs in between.
\<close>

theorem C7_reset_restores_initial_values:
  "reset cfg now s = (boot cfg now)\<lparr> lastRefill := lastRefill s \<rparr>
   \<and> totalRequests (metrics (reset cfg now s)) = 0
   \<and> successfulRequests (metrics (reset cfg now s)) = 0
   \<and> failedRequests (metrics (reset cfg now s)) = 0
   \<and> rateLimitedRequests (metrics (reset cfg now s)) = 0
   \<and> timeoutRequests (metrics (reset cfg now s)) = 0
   \<and> circuitBreakerTrips (metrics (reset cfg now s)) = 0
   \<and> averageLatency (metrics (reset cfg now s)) = 0
   \<and> state (circuitBreaker (reset cfg now s)) = CLOSED
   \<and> failures (circuitBreaker (reset cfg now s)) = 0
   \<and> tokens (reset cfg now s) = of_int (burstSize cfg)
   \<and> step cfg w Reset = w\<lparr> srv := reset cfg (clock w) (srv w) \<rparr>"
  by (simp add: reset_def boot_def)

subsection \<open>The running average\<close>









subsection \<open>Configuration resolution\<close>

text \<open>
  C9 (corrected). Configuration resolution has no validation and no failure path: every
  environment resolves to a configuration. A failure rate or a \<open>TPS\<close> that parses to a
  number other than 0 is taken as it is, negative or not and whatever the rates sum
  to; 0 is replaced by the default.
\<close>

theorem C9_no_validation:
  "timeoutRate (load_config (env\<lparr> TIMEOUT_RATE := Some x \<rparr>)) = (if x = 0 then 0.1 else x)
   \<and> permanentFailureRate (load_config (env\<lparr> PERMANENT_FAILURE_RATE := Some x \<rparr>))
       = (if x = 0 then 0.05 else x)
   \<and> transientFailureRate (load_config (env\<lparr> TRANSIENT_FAILURE_RATE := Some x \<rparr>))
       = (if x = 0 then 0.2 else x)
   \<and> tps (load_config (env\<lparr> TPS := Some n \<rparr>)) = (if n = 0 then 2 else n)"
  by (simp add: load_config_def or_default_def)


text \<open>
  A negative timeout rate is accepted and a request is then served with it; the rates of
  the chaos example of the README sum to 1.1 and are accepted; a negative \<open>TPS\<close> is
  accepted, and the refill then takes tokens away (from 4 to 3 in a second).
\<close>

theorem C9_invalid_configuration_counterexample:
  "timeoutRate (load_config (no_env\<lparr> TIMEOUT_RATE := Some (- 0.5) \<rparr>)) = - 0.5
   \<and> outcome_of (fst (pay_begin (load_config (no_env\<lparr> TIMEOUT_RATE := Some (- 0.5) \<rparr>)) 0
        d_success (boot (load_config (no_env\<lparr> TIMEOUT_RATE := Some (- 0.5) \<rparr>)) 0)))
       = Some SUCCESS
   \<and> transientFailureRate (load_config chaos_env) + permanentFailureRate (load_config chaos_env)
       + timeoutRate (load_config chaos_env) = 1.1
   \<and> tps (load_config (no_env\<lparr> TPS := Some (- 1) \<rparr>)) = - 1
   \<and> tokens (refill (load_config (no_env\<lparr> TPS := Some (- 1) \<rparr>)) 1000
        (snd (pay_begin (load_config (no_env\<lparr> TPS := Some (- 1) \<rparr>)) 0 d_success
               (boot (load_config (no_env\<lparr> TPS := Some (- 1) \<rparr>)) 0)))) = 3"
  by (simp add: load_config_def no_env_def or_default_def chaos_env_def draw_defs boot_def
      handler_defs fl_eval Let_def)

lemma or_default_nonzero: "d \<noteq> 0 \<Longrightarrow> or_default v d \<noteq> 0"
  by (simp add: or_default_def split: option.split)

lemma or_default_falsy [simp]: "or_default None d = d" "or_default (Some 0) d = d"
  by (simp_all add: or_default_def)


text \<open>
  C10 (confirmed). For every numeric setting, a value that parses to 0 or does not
  parse resolves to the default of the setting, whatever the rest of the environment
  is; so no numeric setting of a resolved configuration is 0. In particular
  \<open>TIMEOUT_RATE=0\<close> yields 0.1.
\<close>

theorem C10_zero_resolves_to_default:
  "tps (load_config (env\<lparr> TPS := Some 0 \<rparr>)) = 2
   \<and> tps (load_config (env\<lparr> TPS := None \<rparr>)) = 2
   \<and> burstSize (load_config (env\<lparr> BURST_SIZE := Some 0 \<rparr>)) = 5
   \<and> burstSize (load_config (env\<lparr> BURST_SIZE := None \<rparr>)) = 5
   \<and> minLatency (load_config (env\<lparr> MIN_LATENCY := Some 0 \<rparr>)) = 200
   \<and> minLatency (load_config (env\<lparr> MIN_LATENCY := None \<rparr>)) = 200
   \<and> maxLatency (load_config (env\<lparr> MAX_LATENCY := Some 0 \<rparr>)) = 800
   \<and> maxLatency (load_config (env\<lparr> MAX_LATENCY := None \<rparr>)) = 800
   \<and> transientFailureRate (load_config (env\<lparr> TRANSIENT_FAILURE_RATE := Some 0 \<rparr>)) = 0.2
   \<and> transientFailureRate (load_config (env\<lparr> TRANSIENT_FAILURE_RATE := None \<rparr>)) = 0.2
   \<and> permanentFailureRate (load_config (env\<lparr> PERMANENT_FAILURE_RATE := Some 0 \<rparr>)) = 0.05
   \<and> permanentFailureRate (load_config (env\<lparr> PERMANENT_FAILURE_RATE := None \<rparr>)) = 0.05
   \<and> timeoutRate (load_config (env\<lparr> TIMEOUT_RATE := Some 0 \<rparr>)) = 0.1
   \<and> timeoutRate (load_config (env\<lparr> TIMEOUT_RATE := None \<rparr>)) = 0.1
   \<and> timeoutDuration (load_config (env\<lparr> TIMEOUT_DURATION := Some 0 \<rparr>)) = 10000
   \<and> timeoutDuration (load_config (env\<lparr> TIMEOUT_DURATION := None \<rparr>)) = 10000
   \<and> circuitBreakerThreshold (load_config (env\<lparr> CIRCUIT_BREAKER_THRESHOLD := Some 0 \<rparr>)) = 5
   \<and> circuitBreakerThreshold (load_config (env\<lparr> CIRCUIT_BREAKER_THRESHOLD := None \<rparr>)) = 5
   \<and> circuitBreakerTimeout (load_config (env\<lparr> CIRCUIT_BREAKER_TIMEOUT := Some 0 \<rparr>)) = 30000
   \<and> circuitBreakerTimeout (load_config (env\<lparr> CIRCUIT_BREAKER_TIMEOUT := None \<rparr>)) = 30000
   \<and> tps (load_config env) \<noteq> 0
   \<and> burstSize (load_config env) \<noteq> 0
   \<and> minLatency (load_config env) \<noteq> 0
   \<and> maxLatency (load_config env) \<noteq> 0
   \<and> transientFailureRate (load_config env) \<noteq> 0
   \<and> permanentFailureRate (load_config env) \<noteq> 0
   \<and> timeoutRate (load_config env) \<noteq> 0
   \<and> timeoutDuration (load_config env) \<noteq> 0
   \<and> circuitBreakerThreshold (load_config env) \<noteq> 0
   \<and> circuitBreakerTimeout (load_config env) \<noteq> 0"
  by (simp add: load_config_def or_default_nonzero)

end
